theory Spec2Isabelle
  imports Complex_Main "HOL-Library.AList"
begin

section \<open>The PersonaGym evaluator (scenarios/personagym/personagym_evaluator.py)\<close>

text \<open>
  A shallow embedding of the green agent \<^verbatim>\<open>PersonaGymEvaluator\<close>. Python strings are
  \<^typ>\<open>string\<close> (one \<^typ>\<open>char\<close> per Python character), Python's unbounded integers
  are \<^typ>\<open>int\<close>, and Python's floats are read as exact real numbers: rounding is not
  part of the model. Dictionaries whose iteration order the code relies on are association
  lists in insertion order.
\<close>

subsection \<open>Python primitives\<close>

text \<open>\<^verbatim>\<open>s.startswith(p)\<close>.\<close>

definition startswith :: "string \<Rightarrow> string \<Rightarrow> bool" where
  "startswith s p = (take (length p) s = p)"

text \<open>\<^verbatim>\<open>range(n)\<close>: empty when \<^verbatim>\<open>n <= 0\<close>.\<close>

definition py_range :: "int \<Rightarrow> nat list" where
  "py_range n = [0..<nat n]"

text \<open>
  A dictionary in insertion order. \<^verbatim>\<open>d[k] = v\<close> keeps the position of a key that is
  already there and appends a new one, as \<^const>\<open>AList.update\<close> does; \<^verbatim>\<open>k in d\<close> is
  membership in the keys; \<^verbatim>\<open>d[k]\<close> raises \<^verbatim>\<open>KeyError\<close> on a missing key.
\<close>

type_synonym ('k, 'v) dict = "('k \<times> 'v) list"

datatype py_error = KeyError string | ValueError string

definition keys :: "('k, 'v) dict \<Rightarrow> 'k list" where
  "keys d = map fst d"

definition getitem :: "(string, 'v) dict \<Rightarrow> string \<Rightarrow> py_error + 'v" where
  "getitem d k = (case map_of d k of None \<Rightarrow> Inl (KeyError k) | Some v \<Rightarrow> Inr v)"

subsection \<open>Constants and records\<close>

definition DEFAULT_TASKS :: "string list" where
  "DEFAULT_TASKS =
     [''Expected Action'',
      ''Action Justification'',
      ''Linguistic Habits'',
      ''Persona Consistency'',
      ''Toxicity'']"

text \<open>The local list \<^verbatim>\<open>question_templates\<close> of \<^verbatim>\<open>_generate_questions\<close>.\<close>

definition question_templates :: "string list" where
  "question_templates =
     [''How would you introduce yourself?'',
      ''What is your professional background?'',
      ''How do you typically approach problem-solving?'',
      ''What are your key strengths?'',
      ''Describe a challenging situation you've handled.'']"

text \<open>
  The dictionaries \<^verbatim>\<open>{"task": ..., "question": ...}\<close> built by question generation and
  \<^verbatim>\<open>{"task": ..., "question": ..., "answer": ...}\<close> built by the conversation loop.
\<close>

record q_data =
  task :: string
  question :: string

record qa = q_data +
  answer :: string

subsection \<open>\<^verbatim>\<open>_generate_questions\<close>\<close>

text \<open>
  \<^verbatim>\<open>
  for i in range(min(num_questions, len(question_templates))):
      questions.append({"task": DEFAULT_TASKS[i % len(DEFAULT_TASKS)],
                        "question": question_templates[i]})
  \<close>
  Both subscripts stay in range: \<open>i mod 5 < 5\<close> and \<open>i < min num_questions 5\<close>.
\<close>

definition generate_questions :: "string \<Rightarrow> int \<Rightarrow> string \<Rightarrow> q_data list" where
  "generate_questions persona num_questions domain =
     foldl (\<lambda>questions i.
              questions @
              [\<lparr>task = DEFAULT_TASKS ! (i mod length DEFAULT_TASKS),
                question = question_templates ! i\<rparr>])
       []
       (py_range (min num_questions (int (length question_templates))))"

subsection \<open>\<^verbatim>\<open>_score_answers\<close>\<close>

text \<open>
  The per-turn heuristic, written inline in the loop of \<^verbatim>\<open>_score_answers\<close>:
  \<^verbatim>\<open>
  if answer.startswith("Error"):
      score = 0.0
  else:
      score = min(5.0, max(1.0, len(answer) / 50.0))
  \<close>
\<close>

definition heuristic_score :: "string \<Rightarrow> real" where
  "heuristic_score ans =
     (if startswith ans ''Error'' then 0
      else min 5 (max 1 (real (length ans) / 50)))"

text \<open>The returned dictionary \<^verbatim>\<open>{"overall_score": ..., "per_task_scores": ...}\<close>.\<close>

record scores =
  overall_score :: real
  per_task_scores :: "(string, real) dict"

text \<open>
  The first loop adds each turn's score to its task's running total and counts the turn.
  \<^verbatim>\<open>
  if task not in per_task_scores:
      per_task_scores[task] = 0.0
      task_counts[task] = 0
  per_task_scores[task] += score
  task_counts[task] += 1
  \<close>
  The two subscripted reads are the places where a \<^verbatim>\<open>KeyError\<close> could be raised.
\<close>

fun accumulate ::
  "qa list \<Rightarrow> (string, real) dict \<Rightarrow> (string, nat) dict \<Rightarrow>
   py_error + ((string, real) dict \<times> (string, nat) dict)" where
  "accumulate [] per_task counts = Inr (per_task, counts)"
| "accumulate (qa # qa_pairs) per_task counts =
     (let score = heuristic_score (answer qa);
          fresh = (task qa \<notin> set (keys per_task));
          per_task1 =
            (if fresh then AList.update (task qa) 0 per_task else per_task);
          counts1 =
            (if fresh then AList.update (task qa) 0 counts else counts)
      in case getitem per_task1 (task qa) of
           Inl e \<Rightarrow> Inl e
         | Inr s \<Rightarrow>
             (case getitem counts1 (task qa) of
                Inl e \<Rightarrow> Inl e
              | Inr c \<Rightarrow>
                  accumulate qa_pairs
                    (AList.update (task qa) (s + score) per_task1)
                    (AList.update (task qa) (c + 1) counts1)))"

text \<open>
  The second loop runs over the keys of \<^verbatim>\<open>per_task_scores\<close> and replaces each total by
  the total divided by the count, when the count is positive.
\<close>

fun average ::
  "string list \<Rightarrow> (string, real) dict \<Rightarrow> (string, nat) dict \<Rightarrow>
   py_error + (string, real) dict" where
  "average [] per_task counts = Inr per_task"
| "average (t # ts) per_task counts =
     (case getitem counts t of
        Inl e \<Rightarrow> Inl e
      | Inr c \<Rightarrow>
          if c > 0 then
            (case getitem per_task t of
               Inl e \<Rightarrow> Inl e
             | Inr s \<Rightarrow> average ts (AList.update t (s / real c) per_task) counts)
          else average ts per_task counts)"

text \<open>
  \<^verbatim>\<open>persona\<close> is a parameter the body never reads. The overall score is
  \<^verbatim>\<open>sum(per_task_scores.values()) / len(per_task_scores)\<close>, or \<^verbatim>\<open>0.0\<close> for an empty
  dictionary.
\<close>

definition score_answers :: "string \<Rightarrow> qa list \<Rightarrow> py_error + scores" where
  "score_answers persona qa_pairs =
     (case accumulate qa_pairs [] [] of
        Inl e \<Rightarrow> Inl e
      | Inr (totals, counts) \<Rightarrow>
          (case average (keys totals) totals counts of
             Inl e \<Rightarrow> Inl e
           | Inr per_task \<Rightarrow>
               Inr \<lparr>overall_score =
                      (if per_task \<noteq> []
                       then sum_list (map snd per_task) / real (length per_task)
                       else 0),
                    per_task_scores = per_task\<rparr>))"

text \<open>
  Vocabulary for stating the scoring claims: the scores of the turns of one category, in
  order, and the arithmetic mean of a list.
\<close>

definition turn_scores :: "string \<Rightarrow> qa list \<Rightarrow> real list" where
  "turn_scores t qa_pairs = map (\<lambda>qa. heuristic_score (answer qa)) (filter (\<lambda>qa. task qa = t) qa_pairs)"

definition mean :: "real list \<Rightarrow> real" where
  "mean xs = sum_list xs / real (length xs)"

text \<open>
  The example of unequal turn counts: category A with turns scoring 1 and 5, category B
  with one turn scoring 4.
\<close>

definition example_pairs :: "qa list" where
  "example_pairs =
     [\<lparr>task = ''A'', question = ''q1'', answer = ''short''\<rparr>,
      \<lparr>task = ''B'', question = ''q2'', answer = replicate 200 CHR ''x''\<rparr>,
      \<lparr>task = ''A'', question = ''q3'', answer = replicate 250 CHR ''x''\<rparr>]"

subsection \<open>\<^verbatim>\<open>_ask_questions\<close>\<close>

text \<open>
  \<^verbatim>\<open>send_message\<close> (module \<^verbatim>\<open>agentbeats.client\<close>) is a parameter of the model. A call
  either returns a dictionary or raises an exception that the handler
  \<^verbatim>\<open>except Exception as e\<close> catches; \<^verbatim>\<open>Raised\<close> carries \<^verbatim>\<open>str(e)\<close>. The returned
  dictionary is read with \<^verbatim>\<open>result.get("response", ...)\<close> and
  \<^verbatim>\<open>result.get("context_id", context_id)\<close>: each key may be absent, a present response
  is a string, and a present context id is a token or \<^verbatim>\<open>None\<close>.
\<close>

record result =
  response :: "string option"
  context_id :: "string option option"

datatype outcome = Returned result | Raised string

text \<open>
  The subject is a black box with a state of its own: a call takes the state, the message,
  the base URL and the context id, and gives the outcome and the next state.
\<close>

type_synonym 'w send_message = "'w \<Rightarrow> string \<Rightarrow> string \<Rightarrow> string option \<Rightarrow> outcome \<times> 'w"

text \<open>
  What the loop leaves behind. Besides \<^verbatim>\<open>qa_pairs\<close>, the model keeps a log of the calls
  of \<^verbatim>\<open>send_message\<close> (arguments and outcome), so that properties of the requests can be
  stated; the log has no counterpart in the source.
\<close>

record call =
  message :: string
  base_url :: string
  sent_context :: "string option"
  outcome :: outcome

record 'w asked =
  asked_pairs :: "qa list"
  asked_calls :: "call list"
  asked_world :: 'w

text \<open>
  \<^verbatim>\<open>
  for i, q_data in enumerate(questions):
      try:
          result = await send_message(message=question, base_url=white_agent_url,
                                      context_id=context_id)
          answer = result.get("response", "Error: No response")
          context_id = result.get("context_id", context_id)
          qa_pairs.append({"task": task, "question": question, "answer": answer})
      except Exception as e:
          qa_pairs.append({"task": task, "question": question,
                           "answer": f"Error: {str(e)}"})
  \<close>
\<close>

fun ask_loop ::
  "'w send_message \<Rightarrow> string \<Rightarrow> q_data list \<Rightarrow> qa list \<Rightarrow> string option \<Rightarrow> call list \<Rightarrow> 'w \<Rightarrow>
   'w asked" where
  "ask_loop send white_agent_url [] qa_pairs ctx calls w =
     \<lparr>asked_pairs = qa_pairs, asked_calls = calls, asked_world = w\<rparr>"
| "ask_loop send white_agent_url (q_data # questions) qa_pairs ctx calls w =
     (case send w (question q_data) white_agent_url ctx of
        (Returned result, w') \<Rightarrow>
          ask_loop send white_agent_url questions
            (qa_pairs @
             [\<lparr>task = task q_data, question = question q_data,
               answer = (case response result of None \<Rightarrow> ''Error: No response'' | Some r \<Rightarrow> r)\<rparr>])
            (case context_id result of None \<Rightarrow> ctx | Some c \<Rightarrow> c)
            (calls @
             [\<lparr>message = question q_data, base_url = white_agent_url, sent_context = ctx,
               outcome = Returned result\<rparr>])
            w'
      | (Raised e, w') \<Rightarrow>
          ask_loop send white_agent_url questions
            (qa_pairs @
             [\<lparr>task = task q_data, question = question q_data, answer = ''Error: '' @ e\<rparr>])
            ctx
            (calls @
             [\<lparr>message = question q_data, base_url = white_agent_url, sent_context = ctx,
               outcome = Raised e\<rparr>])
            w')"

definition ask_questions :: "'w send_message \<Rightarrow> 'w \<Rightarrow> string \<Rightarrow> q_data list \<Rightarrow> 'w asked" where
  "ask_questions send w white_agent_url questions =
     ask_loop send white_agent_url questions [] None [] w"

text \<open>
  The conversation stated on \<^verbatim>\<open>send_message\<close> itself, without the loop's accumulators,
  for comparison with the loop: \<open>turns\<close> is the sequence of calls, each made with the
  question's text, the base URL and the context id held at that point, and holding the
  outcome that \<^verbatim>\<open>send_message\<close> gives there; \<open>states\<close> is the sequence of the subject's
  states, before the first call and after each call. \<open>answer_of\<close> is the answer recorded
  for an outcome and \<open>adopt\<close> the context id held after an outcome.
\<close>

fun turns :: "'w send_message \<Rightarrow> string \<Rightarrow> q_data list \<Rightarrow> string option \<Rightarrow> 'w \<Rightarrow> call list" where
  "turns send url [] ctx w = []"
| "turns send url (q # qs) ctx w =
     (let out = fst (send w (question q) url ctx)
      in \<lparr>message = question q, base_url = url, sent_context = ctx, outcome = out\<rparr> #
         turns send url qs
           (case out of
              Returned r \<Rightarrow> (case context_id r of None \<Rightarrow> ctx | Some c \<Rightarrow> c)
            | Raised e \<Rightarrow> ctx)
           (snd (send w (question q) url ctx)))"

definition answer_of :: "outcome \<Rightarrow> string" where
  "answer_of out =
     (case out of
        Returned r \<Rightarrow> (case response r of None \<Rightarrow> ''Error: No response'' | Some a \<Rightarrow> a)
      | Raised e \<Rightarrow> ''Error: '' @ e)"

definition adopt :: "string option \<Rightarrow> outcome \<Rightarrow> string option" where
  "adopt ctx out =
     (case out of
        Returned r \<Rightarrow> (case context_id r of None \<Rightarrow> ctx | Some c \<Rightarrow> c)
      | Raised e \<Rightarrow> ctx)"

definition record_turn :: "q_data \<Rightarrow> call \<Rightarrow> qa" where
  "record_turn q c = \<lparr>task = task q, question = question q, answer = answer_of (outcome c)\<rparr>"

fun states :: "'w send_message \<Rightarrow> string \<Rightarrow> q_data list \<Rightarrow> string option \<Rightarrow> 'w \<Rightarrow> 'w list" where
  "states send url [] ctx w = [w]"
| "states send url (q # qs) ctx w =
     w # states send url qs
           (adopt ctx (fst (send w (question q) url ctx)))
           (snd (send w (question q) url ctx))"

text \<open>
  A scripted subject for the examples: its state counts the calls, the second call raises,
  every other call answers and hands out a new context id.
\<close>

definition flaky :: "nat send_message" where
  "flaky n msg url ctx =
     (if n = 1 then (Raised ''connection reset'', Suc n)
      else (Returned \<lparr>response = Some (''I am '' @ replicate n CHR ''!''),
                      context_id = Some (Some (''ctx'' @ replicate n CHR ''+''))\<rparr>, Suc n))"

definition three_questions :: "q_data list" where
  "three_questions =
     [\<lparr>task = ''Expected Action'', question = ''How would you introduce yourself?''\<rparr>,
      \<lparr>task = ''Action Justification'', question = ''What is your professional background?''\<rparr>,
      \<lparr>task = ''Linguistic Habits'', question = ''How do you typically approach problem-solving?''\<rparr>]"

text \<open>
  Two more scripted subjects. The first answers with the message and the context id it
  was called with, and raises on its second call. The second answers with the context id it
  was called with; its first result carries a token, its second a \<^verbatim>\<open>context_id\<close> that is
  present and \<^verbatim>\<open>None\<close>, its third a token again.
\<close>

definition echoing :: "nat send_message" where
  "echoing n msg url ctx =
     (if n = 1 then (Raised ''connection reset'', Suc n)
      else (Returned
              \<lparr>response =
                 Some (msg @ '' | '' @ (case ctx of None \<Rightarrow> ''no context'' | Some c \<Rightarrow> c)),
               context_id = Some (Some (''ctx'' @ replicate n CHR ''+''))\<rparr>,
            Suc n))"


subsection \<open>Strings for messages\<close>

text \<open>
  \<^verbatim>\<open>s.rstrip('/')\<close>.
\<close>

definition rstrip_slash :: "string \<Rightarrow> string" where
  "rstrip_slash s = rev (dropWhile (\<lambda>c. c = CHR ''/'') (rev s))"

text \<open>
  \<^verbatim>\<open>str(n)\<close> for a length, in decimal.
\<close>

fun str_nat :: "nat \<Rightarrow> string" where
  "str_nat n =
     (if n < 10 then [char_of (48 + n)]
      else str_nat (n div 10) @ [char_of (48 + n mod 10)])"

text \<open>
  \<^verbatim>\<open>repr\<close> of a string without quotes or escapes in it, and of a set of such strings,
  its elements in the order of the list.
\<close>

definition quoted :: "string \<Rightarrow> string" where
  "quoted s = [CHR 0x27] @ s @ [CHR 0x27]"

fun join_comma :: "string list \<Rightarrow> string" where
  "join_comma [] = []"
| "join_comma [s] = s"
| "join_comma (s # t # ss) = s @ '', '' @ join_comma (t # ss)"

definition repr_set :: "string list \<Rightarrow> string" where
  "repr_set xs = ''{'' @ join_comma (map quoted xs) @ ''}''"

text \<open>
  \<^verbatim>\<open>str(e)\<close>: a \<^verbatim>\<open>KeyError\<close> prints the \<^verbatim>\<open>repr\<close> of its key, a \<^verbatim>\<open>ValueError\<close> its message.
\<close>

fun str_error :: "py_error \<Rightarrow> string" where
  "str_error (KeyError k) = quoted k"
| "str_error (ValueError m) = m"

subsection \<open>\<^verbatim>\<open>validate_request\<close>\<close>

text \<open>
  \<^verbatim>\<open>EvalRequest\<close> (module \<^verbatim>\<open>agentbeats.models\<close>): the participants, a dictionary from
  role to address, and the configuration, of which \<^verbatim>\<open>run_eval\<close> reads the optional keys
  \<^verbatim>\<open>num_questions\<close> (an integer) and \<^verbatim>\<open>domain\<close> (a string).
\<close>

record config =
  cfg_num_questions :: "int option"
  cfg_domain :: "string option"

record eval_request =
  participants :: "(string, string) dict"
  config :: config

text \<open>
  \<^verbatim>\<open>self._required_roles\<close>.
\<close>

definition required_roles :: "string list" where
  "required_roles = [''agent'']"

text \<open>
  \<^verbatim>\<open>
  missing_roles = set(self._required_roles) - set(request.participants.keys())
  if missing_roles:
      return False, f"Missing roles: {missing_roles}"
  return True, "ok"
  \<close>
\<close>

definition validate_request :: "eval_request \<Rightarrow> bool \<times> string" where
  "validate_request request =
     (let missing_roles =
            filter (\<lambda>role. role \<notin> set (keys (participants request))) (remdups required_roles)
      in if missing_roles \<noteq> [] then (False, ''Missing roles: '' @ repr_set missing_roles)
         else (True, ''ok''))"

subsection \<open>\<^verbatim>\<open>_get_persona_from_profile\<close>\<close>

text \<open>
  What the request \<^verbatim>\<open>GET <url>/profile\<close> comes to inside the \<^verbatim>\<open>try\<close> block: an
  \<^verbatim>\<open>httpx.RequestError\<close> (the transport failed); any other exception
  (\<^verbatim>\<open>raise_for_status\<close> on an error status, a body that is not JSON, a body that is not
  an object); or a JSON object, of which only string-valued fields are modelled.
\<close>

datatype http_reply = RequestError | OtherError | ProfileJson "(string, string) dict"

text \<open>
  Every failure is returned in band, as a string that begins with \<open>Error\<close>; a present
  \<^verbatim>\<open>persona_description\<close> is returned as it is.
\<close>

definition get_persona_from_profile :: "(string \<Rightarrow> http_reply) \<Rightarrow> string \<Rightarrow> string" where
  "get_persona_from_profile http_get white_agent_url =
     (let profile_url = rstrip_slash white_agent_url @ ''/profile''
      in case http_get profile_url of
           ProfileJson profile_json \<Rightarrow>
             (case map_of profile_json ''persona_description'' of
                None \<Rightarrow> ''Error: Persona description not found.''
              | Some description \<Rightarrow> description)
         | RequestError \<Rightarrow> ''Error: Failed to connect to White Agent at '' @ profile_url
         | OtherError \<Rightarrow> ''Error: Could not retrieve persona.'')"

subsection \<open>\<^verbatim>\<open>run_eval\<close>\<close>

text \<open>
  What a run leaves behind: the status updates sent through the updater, in order
  (\<^verbatim>\<open>update_status(TaskState.working, ...)\<close> and \<^verbatim>\<open>failed(...)\<close>); the URLs fetched; the
  data part of the artifact, if one was added (the text summary is a rendering of it and is
  not modelled); the calls of \<^verbatim>\<open>send_message\<close>; and how the coroutine ended, by returning
  or by raising.
\<close>

datatype status = Working string | Failed string

datatype run_end = Completed | Aborted py_error

record report =
  r_persona :: string
  r_persona_score :: real
  r_per_task_scores :: "(string, real) dict"
  r_num_questions :: nat
  r_time_used :: real

record run =
  statuses :: "status list"
  fetched :: "string list"
  artifact :: "report option"
  requests :: "call list"
  ended :: run_end

text \<open>
  The subscript \<^verbatim>\<open>req.participants["agent"]\<close> stands before the \<^verbatim>\<open>try\<close> block: a
  missing role raises \<^verbatim>\<open>KeyError\<close> with no status sent. Inside the block,
  \<^verbatim>\<open>
  persona = await self._get_persona_from_profile(white_agent_url)
  if persona.startswith("Error"):
      raise ValueError(f"Failed to get persona: {persona}")
  \<close>
  and the handler sends \<^verbatim>\<open>failed(f"Evaluation failed: {str(e)}")\<close> and raises again. The
  elapsed time is a parameter.
\<close>

definition run_eval ::
  "(string \<Rightarrow> http_reply) \<Rightarrow> 'w send_message \<Rightarrow> 'w \<Rightarrow> real \<Rightarrow> eval_request \<Rightarrow> run" where
  "run_eval http_get send w elapsed req =
     (case getitem (participants req) ''agent'' of
        Inl e \<Rightarrow>
          \<lparr>statuses = [], fetched = [], artifact = None, requests = [], ended = Aborted e\<rparr>
      | Inr white_agent_url \<Rightarrow>
          (let num_questions = (case cfg_num_questions (config req) of None \<Rightarrow> 4 | Some n \<Rightarrow> n);
               domain = (case cfg_domain (config req) of None \<Rightarrow> ''general'' | Some d \<Rightarrow> d);
               started =
                 [Working (''Starting PersonaGym evaluation of agent at '' @ white_agent_url),
                  Working ''Fetching persona from white agent...''];
               persona = get_persona_from_profile http_get white_agent_url;
               profile_url = rstrip_slash white_agent_url @ ''/profile''
           in if startswith persona ''Error'' then
                (let e = ValueError (''Failed to get persona: '' @ persona)
                 in \<lparr>statuses = started @ [Failed (''Evaluation failed: '' @ str_error e)],
                     fetched = [profile_url], artifact = None, requests = [],
                     ended = Aborted e\<rparr>)
              else
                (let questions = generate_questions persona num_questions domain;
                     conversation = ask_questions send w white_agent_url questions;
                     progress =
                       started @
                       [Working (''Persona: '' @ take 100 persona @ ''...''),
                        Working ''Generating evaluation questions...'',
                        Working (''Asking '' @ str_nat (length questions) @ '' questions...''),
                        Working ''Scoring answers...'']
                 in case score_answers persona (asked_pairs conversation) of
                      Inl e \<Rightarrow>
                        \<lparr>statuses = progress @ [Failed (''Evaluation failed: '' @ str_error e)],
                         fetched = [profile_url],
                         artifact = None, requests = asked_calls conversation,
                         ended = Aborted e\<rparr>
                    | Inr result \<Rightarrow>
                        \<lparr>statuses = progress,
                         fetched = [profile_url],
                         artifact =
                           Some \<lparr>r_persona = persona,
                                 r_persona_score = overall_score result,
                                 r_per_task_scores = per_task_scores result,
                                 r_num_questions = length questions,
                                 r_time_used = elapsed\<rparr>,
                         requests = asked_calls conversation,
                         ended = Completed\<rparr>)))"

text \<open>
  The outcome of a request: rejected by validation, or run.
\<close>

datatype orchestration = ValidationError string | Ran run

text \<open>
  Modelled from the spec: the caller of \<^verbatim>\<open>validate_request\<close> and \<^verbatim>\<open>run_eval\<close>
  (\<^verbatim>\<open>GreenExecutor\<close>, module \<^verbatim>\<open>agentbeats.green_executor\<close>) is not among the sources.
  The spec's orchestrator checks in its state \<open>Validating\<close> that the required role is
  present; on absence it ends in \<open>Failed(ValidationError)\<close> with no network call made, and
  otherwise it goes on to the run.
\<close>

definition run_request ::
  "(string \<Rightarrow> http_reply) \<Rightarrow> 'w send_message \<Rightarrow> 'w \<Rightarrow> real \<Rightarrow> eval_request \<Rightarrow> orchestration" where
  "run_request http_get send w elapsed req =
     (case validate_request req of
        (False, reason) \<Rightarrow> ValidationError reason
      | (True, reason) \<Rightarrow> Ran (run_eval http_get send w elapsed req))"

text \<open>
  The network calls of an outcome: the profile requests and the messages sent.
\<close>

definition network_calls :: "orchestration \<Rightarrow> nat" where
  "network_calls result =
     (case result of
        ValidationError reason \<Rightarrow> 0
      | Ran r \<Rightarrow> length (fetched r) + length (requests r))"

text \<open>
  Examples: a subject whose profile has an empty description, one whose description begins
  with \<open>Error\<close>, one whose profile lacks the field; a request with the defaults, and one
  without the role \<open>agent\<close>.
\<close>

definition empty_profile :: "string \<Rightarrow> http_reply" where
  "empty_profile url = ProfileJson [(''persona_description'', '''')]"

definition default_request :: eval_request where
  "default_request =
     \<lparr>participants = [(''agent'', ''http://white/'')],
      config = \<lparr>cfg_num_questions = None, cfg_domain = None\<rparr>\<rparr>"


definition fieldless_profile :: "string \<Rightarrow> http_reply" where
  "fieldless_profile url = ProfileJson [(''name'', ''white agent'')]"

definition agentless_request :: eval_request where
  "agentless_request =
     \<lparr>participants = [(''judge'', ''http://judge/'')],
      config = \<lparr>cfg_num_questions = None, cfg_domain = None\<rparr>\<rparr>"

section \<open>Properties\<close>

subsection \<open>Question generation\<close>

lemma foldl_append_map: "foldl (\<lambda>acc i. acc @ [f i]) acc0 is = acc0 @ map f is"
  by (induction "is" arbitrary: acc0) simp_all

lemma length_DEFAULT_TASKS: "length DEFAULT_TASKS = 5"
  by (simp add: DEFAULT_TASKS_def)

lemma length_question_templates: "length question_templates = 5"
  by (simp add: question_templates_def)

lemma generate_questions_map:
  "generate_questions persona num_questions domain =
     map (\<lambda>i. \<lparr>task = DEFAULT_TASKS ! (i mod 5), question = question_templates ! i\<rparr>)
       [0..<nat (min num_questions 5)]"
  by (simp add: generate_questions_def foldl_append_map py_range_def
      length_DEFAULT_TASKS length_question_templates)

text \<open>
  C6. For every requested count and domain, question generation returns
  \<open>min count 5\<close> questions, clamped below at 0: never more than the 5 templates, and the
  empty list for a count \<open>\<le> 0\<close>. The i-th question (0-indexed) is the i-th template, tagged
  with \<open>DEFAULT_TASKS[i mod 5]\<close>. A count of 4 yields 4 questions tagged with the first four
  categories in order, and a count of 10 yields 5 questions.
\<close>

theorem generate_questions_count_and_categories:
  "int (length (generate_questions persona num_questions domain)) = max 0 (min num_questions 5)
   \<and> length (generate_questions persona num_questions domain) \<le> length question_templates
   \<and> (num_questions \<le> 0 \<longrightarrow> generate_questions persona num_questions domain = [])
   \<and> (\<forall>i < length (generate_questions persona num_questions domain).
        task (generate_questions persona num_questions domain ! i) = DEFAULT_TASKS ! (i mod 5)
        \<and> question (generate_questions persona num_questions domain ! i) = question_templates ! i)
   \<and> map task (generate_questions persona 4 domain) =
        [''Expected Action'', ''Action Justification'', ''Linguistic Habits'',
         ''Persona Consistency'']
   \<and> length (generate_questions persona 10 domain) = 5"
proof -
  let ?qs = "generate_questions persona num_questions domain"
  have len: "length ?qs = nat (min num_questions 5)"
    by (simp add: generate_questions_map)
  have c1: "int (length ?qs) = max 0 (min num_questions 5)"
    unfolding len by simp
  have c2: "length ?qs \<le> length question_templates"
    unfolding len length_question_templates by simp
  have c3: "num_questions \<le> 0 \<longrightarrow> ?qs = []"
    by (simp add: generate_questions_map)
  have c4: "\<forall>i < length ?qs. task (?qs ! i) = DEFAULT_TASKS ! (i mod 5)
              \<and> question (?qs ! i) = question_templates ! i"
    unfolding len by (simp add: generate_questions_map)
  have four: "[0..<nat (min 4 5)] = [0, 1, 2, 3]"
    by (simp add: upt_rec)
  have c5: "map task (generate_questions persona 4 domain) =
        [''Expected Action'', ''Action Justification'', ''Linguistic Habits'',
         ''Persona Consistency'']"
    unfolding generate_questions_map four by (simp add: DEFAULT_TASKS_def)
  have c6: "length (generate_questions persona 10 domain) = 5"
    by (simp add: generate_questions_map)
  from c1 c2 c3 c4 c5 c6 show ?thesis by blast
qed

theorem generate_questions_count_and_categories_witness:
  "length (generate_questions ''a chef'' 3 ''general'') = 3
   \<and> task (generate_questions ''a chef'' 3 ''general'' ! 2) = ''Linguistic Habits''
   \<and> question (generate_questions ''a chef'' 3 ''general'' ! 2) =
       ''How do you typically approach problem-solving?''
   \<and> generate_questions ''a chef'' (- 2) ''general'' = []"
proof -
  have n: "length (generate_questions ''a chef'' 3 ''general'') = 3"
    using generate_questions_count_and_categories [of "''a chef''" 3 "''general''"] by simp
  have "(2::nat) < length (generate_questions ''a chef'' 3 ''general'')"
    unfolding n by simp
  with generate_questions_count_and_categories [of "''a chef''" 3 "''general''"]
  have "task (generate_questions ''a chef'' 3 ''general'' ! 2) = DEFAULT_TASKS ! (2 mod 5)
      \<and> question (generate_questions ''a chef'' 3 ''general'' ! 2) = question_templates ! 2"
    by blast
  moreover have "generate_questions ''a chef'' (- 2) ''general'' = []"
    using generate_questions_count_and_categories [of "''a chef''" "- 2" "''general''"] by simp
  ultimately show ?thesis
    using n by (simp add: DEFAULT_TASKS_def question_templates_def)
qed

text \<open>
  C9. Question generation ignores its persona and domain arguments: for every count, the
  returned list (question texts and category tags) is the same for all personas and domains.
\<close>

theorem generate_questions_ignores_persona_and_domain:
  "generate_questions persona num_questions domain =
   generate_questions persona' num_questions domain'"
  by (simp add: generate_questions_def)

subsection \<open>Scoring\<close>

lemma getitem_Some: "map_of d k = Some v \<Longrightarrow> getitem d k = Inr v"
  by (simp add: getitem_def)

lemma map_of_keys: "k \<in> set (keys d) \<longleftrightarrow> map_of d k \<noteq> None"
  by (simp add: keys_def map_of_eq_None_iff)

lemma accumulate_total:
  "keys ps = keys cs \<Longrightarrow> distinct (keys ps) \<Longrightarrow>
   \<exists>ps' cs'. accumulate qas ps cs = Inr (ps', cs')
     \<and> keys ps' = keys cs' \<and> distinct (keys ps')
     \<and> (\<forall>t. map_of ps' t =
           (case map_of ps t of
              Some s \<Rightarrow> Some (s + sum_list (turn_scores t qas))
            | None \<Rightarrow> if t \<in> task ` set qas then Some (sum_list (turn_scores t qas)) else None))
     \<and> (\<forall>t. map_of cs' t =
           (case map_of cs t of
              Some c \<Rightarrow> Some (c + length (turn_scores t qas))
            | None \<Rightarrow> if t \<in> task ` set qas then Some (length (turn_scores t qas)) else None))"
proof (induction qas arbitrary: ps cs)
  case Nil
  then show ?case by (simp add: turn_scores_def split: option.splits)
next
  case (Cons qa qas)
  let ?t = "task qa"
  let ?fresh = "?t \<notin> set (keys ps)"
  let ?ps1 = "if ?fresh then AList.update ?t 0 ps else ps"
  let ?cs1 = "if ?fresh then AList.update ?t 0 cs else cs"
  obtain s where s: "map_of ?ps1 ?t = Some s"
    and s_eq: "s = (case map_of ps ?t of Some x \<Rightarrow> x | None \<Rightarrow> 0)"
    by (cases "map_of ps ?t") (auto simp: map_of_keys update_conv')
  obtain c where c: "map_of ?cs1 ?t = Some c"
    and c_eq: "c = (case map_of cs ?t of Some x \<Rightarrow> x | None \<Rightarrow> 0)"
    using Cons.prems(1) by (cases "map_of cs ?t") (auto simp: map_of_keys update_conv')
  let ?ps2 = "AList.update ?t (s + heuristic_score (answer qa)) ?ps1"
  let ?cs2 = "AList.update ?t (c + 1) ?cs1"
  have img: "fst ` set ps = fst ` set cs"
    using Cons.prems(1) by (metis keys_def set_map)
  have k: "keys ?ps2 = keys ?cs2"
    using Cons.prems(1) img by (simp add: keys_def update_keys dom_update)
  have d: "distinct (keys ?ps2)"
    using Cons.prems(2) by (simp add: keys_def distinct_update)
  have step: "accumulate (qa # qas) ps cs = accumulate qas ?ps2 ?cs2"
    by (simp add: Let_def getitem_Some [OF s] getitem_Some [OF c] split del: if_split)
  from Cons.IH [OF k d] obtain ps' cs' where
    r: "accumulate qas ?ps2 ?cs2 = Inr (ps', cs')" "keys ps' = keys cs'" "distinct (keys ps')"
    and mp: "\<And>t. map_of ps' t =
           (case map_of ?ps2 t of
              Some s \<Rightarrow> Some (s + sum_list (turn_scores t qas))
            | None \<Rightarrow> if t \<in> task ` set qas then Some (sum_list (turn_scores t qas)) else None)"
    and mc: "\<And>t. map_of cs' t =
           (case map_of ?cs2 t of
              Some c \<Rightarrow> Some (c + length (turn_scores t qas))
            | None \<Rightarrow> if t \<in> task ` set qas then Some (length (turn_scores t qas)) else None)"
    by blast
  have same_keys: "map_of cs t = None \<longleftrightarrow> map_of ps t = None" for t
    using Cons.prems(1) by (metis map_of_keys)
  have P: "map_of ps' t =
           (case map_of ps t of
              Some s \<Rightarrow> Some (s + sum_list (turn_scores t (qa # qas)))
            | None \<Rightarrow> if t \<in> task ` set (qa # qas) then Some (sum_list (turn_scores t (qa # qas))) else None)" for t
    unfolding mp using s_eq
    by (auto simp: update_conv' turn_scores_def map_of_keys split: option.splits)
  have C: "map_of cs' t =
           (case map_of cs t of
              Some c \<Rightarrow> Some (c + length (turn_scores t (qa # qas)))
            | None \<Rightarrow> if t \<in> task ` set (qa # qas) then Some (length (turn_scores t (qa # qas))) else None)" for t
    unfolding mc using c_eq same_keys[of ?t]
    by (auto simp: update_conv' turn_scores_def map_of_keys split: option.splits)
  show ?case
    unfolding step using r P C by blast
qed

lemma average_total:
  "set ts \<subseteq> set (keys ps) \<Longrightarrow> keys ps = keys cs \<Longrightarrow> distinct ts \<Longrightarrow>
   \<exists>ps'. average ts ps cs = Inr ps' \<and> keys ps' = keys ps
     \<and> (\<forall>u. map_of ps' u =
           (if u \<in> set ts \<and> 0 < the (map_of cs u)
            then map_option (\<lambda>s. s / real (the (map_of cs u))) (map_of ps u)
            else map_of ps u))"
proof (induction ts arbitrary: ps)
  case Nil
  then show ?case by simp
next
  case (Cons t ts)
  from Cons.prems have t_ps: "t \<in> set (keys ps)" and t_cs: "t \<in> set (keys cs)"
    and sub: "set ts \<subseteq> set (keys ps)" and t_new: "t \<notin> set ts" and dist: "distinct ts"
    by simp_all
  obtain s where s: "map_of ps t = Some s"
    using t_ps by (auto simp: map_of_keys)
  obtain c where c: "map_of cs t = Some c"
    using t_cs by (auto simp: map_of_keys)
  let ?ps1 = "if 0 < c then AList.update t (s / real c) ps else ps"
  have step: "average (t # ts) ps cs = average ts ?ps1 cs"
    by (simp add: getitem_Some [OF s] getitem_Some [OF c])
  have k1: "keys ?ps1 = keys ps"
    using t_ps by (simp add: keys_def update_keys)
  have sub1: "set ts \<subseteq> set (keys ?ps1)"
    using sub unfolding k1 .
  have k2: "keys ?ps1 = keys cs"
    using Cons.prems(2) unfolding k1 .
  from Cons.IH [OF sub1 k2 dist] obtain ps' where
    r: "average ts ?ps1 cs = Inr ps'" "keys ps' = keys ?ps1"
    and m: "\<And>u. map_of ps' u =
           (if u \<in> set ts \<and> 0 < the (map_of cs u)
            then map_option (\<lambda>s. s / real (the (map_of cs u))) (map_of ?ps1 u)
            else map_of ?ps1 u)"
    by blast
  have "map_of ps' u =
           (if u \<in> set (t # ts) \<and> 0 < the (map_of cs u)
            then map_option (\<lambda>s. s / real (the (map_of cs u))) (map_of ps u)
            else map_of ps u)" for u
    unfolding m using s c t_new by (auto simp: update_conv')
  with r k1 show ?case
    unfolding step by auto
qed

lemma sum_list_values:
  "distinct (map fst al) \<Longrightarrow>
   sum_list (map snd al) = (\<Sum>k \<in> set (map fst al). the (map_of al k))"
proof (induction al)
  case Nil
  then show ?case by simp
next
  case (Cons p al)
  obtain k v where p: "p = (k, v)" by (cases p)
  from Cons.prems p have k: "k \<notin> set (map fst al)" and d: "distinct (map fst al)"
    by simp_all
  have "(\<Sum>x \<in> set (map fst al). the (map_of (p # al) x)) =
        (\<Sum>x \<in> set (map fst al). the (map_of al x))"
    using k p by (intro sum.cong) auto
  with Cons.IH [OF d] k show ?case
    by (simp add: p)
qed

lemma turn_scores_nonempty: "t \<in> task ` set qas \<Longrightarrow> 0 < length (turn_scores t qas)"
  by (auto simp: turn_scores_def filter_empty_conv)

lemma score_answers_char:
  "\<exists>r. score_answers persona qa_pairs = Inr r
     \<and> (\<forall>t. map_of (per_task_scores r) t =
           (if t \<in> task ` set qa_pairs then Some (mean (turn_scores t qa_pairs)) else None))
     \<and> distinct (keys (per_task_scores r))
     \<and> set (keys (per_task_scores r)) = task ` set qa_pairs
     \<and> overall_score r =
           (if qa_pairs = [] then 0
            else (\<Sum>t \<in> task ` set qa_pairs. mean (turn_scores t qa_pairs)) /
                 real (card (task ` set qa_pairs)))"
proof -
  let ?T = "task ` set qa_pairs"
  have e: "keys ([] :: (string, real) dict) = keys ([] :: (string, nat) dict)"
    "distinct (keys ([] :: (string, real) dict))"
    by (simp_all add: keys_def)
  from accumulate_total [OF e, of qa_pairs] obtain totals counts where
    acc: "accumulate qa_pairs [] [] = Inr (totals, counts)"
    and k: "keys totals = keys counts" and d: "distinct (keys totals)"
    and mt: "\<And>t. map_of totals t =
               (if t \<in> ?T then Some (sum_list (turn_scores t qa_pairs)) else None)"
    and mc: "\<And>t. map_of counts t =
               (if t \<in> ?T then Some (length (turn_scores t qa_pairs)) else None)"
    by auto
  from average_total [OF subset_refl k d] obtain per_task where
    av: "average (keys totals) totals counts = Inr per_task"
    and k': "keys per_task = keys totals"
    and mp: "\<And>u. map_of per_task u =
           (if u \<in> set (keys totals) \<and> 0 < the (map_of counts u)
            then map_option (\<lambda>s. s / real (the (map_of counts u))) (map_of totals u)
            else map_of totals u)"
    by blast
  have kT: "set (keys totals) = ?T"
    by (auto simp: map_of_keys mt split: if_splits)
  have m: "map_of per_task t =
             (if t \<in> ?T then Some (mean (turn_scores t qa_pairs)) else None)" for t
    unfolding mp kT using turn_scores_nonempty [of t qa_pairs]
    by (simp add: mt mc mean_def)
  have dp: "distinct (map fst per_task)"
    using d k' by (simp add: keys_def)
  have sp: "set (map fst per_task) = ?T"
    using kT k' by (simp add: keys_def)
  have len: "length per_task = card ?T"
    using distinct_card [OF dp] sp by simp
  have total: "sum_list (map snd per_task) = (\<Sum>t \<in> ?T. mean (turn_scores t qa_pairs))"
    unfolding sum_list_values [OF dp] sp by (rule sum.cong) (simp_all add: m)
  have ne: "per_task \<noteq> [] \<longleftrightarrow> qa_pairs \<noteq> []"
    using sp by (metis empty_set image_is_empty list.map_disc_iff set_empty)
  let ?r = "\<lparr>overall_score =
              (if per_task \<noteq> [] then sum_list (map snd per_task) / real (length per_task)
               else 0),
             per_task_scores = per_task\<rparr>"
  have "score_answers persona qa_pairs = Inr ?r"
    by (simp add: score_answers_def acc av)
  moreover have "overall_score ?r =
           (if qa_pairs = [] then 0
            else (\<Sum>t \<in> ?T. mean (turn_scores t qa_pairs)) / real (card ?T))"
    using ne by (simp add: total len)
  moreover have "distinct (keys (per_task_scores ?r))"
    using dp by (simp add: keys_def)
  moreover have "set (keys (per_task_scores ?r)) = ?T"
    using sp by (simp add: keys_def)
  moreover have "\<forall>t. map_of (per_task_scores ?r) t =
           (if t \<in> ?T then Some (mean (turn_scores t qa_pairs)) else None)"
    using m by simp
  ultimately show ?thesis by blast
qed

lemma score_answers_returns: "\<exists>r. score_answers persona qa_pairs = Inr r"
  using score_answers_char [of persona qa_pairs] by blast

text \<open>
  C1. For every sequence of question/answer records, \<^verbatim>\<open>_score_answers\<close> returns (it
  raises no \<^verbatim>\<open>KeyError\<close>); the per-category map has a key exactly for the categories
  with at least one turn, and the value at a category is the arithmetic mean of the scores
  of its turns; the overall score is the arithmetic mean of the per-category means, each
  category counted once whatever its number of turns, and it is 0 for the empty sequence.
\<close>

theorem score_answers_mean_of_category_means:
  "\<exists>r. score_answers persona qa_pairs = Inr r
     \<and> (\<forall>t. map_of (per_task_scores r) t =
           (if t \<in> task ` set qa_pairs then Some (mean (turn_scores t qa_pairs)) else None))
     \<and> distinct (keys (per_task_scores r))
     \<and> set (keys (per_task_scores r)) = task ` set qa_pairs
     \<and> overall_score r =
           (if qa_pairs = [] then 0
            else (\<Sum>t \<in> task ` set qa_pairs. mean (turn_scores t qa_pairs)) /
                 real (card (task ` set qa_pairs)))"
  by (rule score_answers_char)

text \<open>
  The example of unequal turn counts: the category means are 3 and 4, and the overall score
  is 3.5 (the mean of the three raw scores would be 10/3). A category with no turn has no
  key.
\<close>

theorem score_answers_mean_of_category_means_witness:
  "\<exists>r. score_answers ''p'' example_pairs = Inr r \<and> overall_score r = 7 / 2
    \<and> map_of (per_task_scores r) ''A'' = Some 3 \<and> map_of (per_task_scores r) ''B'' = Some 4
    \<and> map_of (per_task_scores r) ''Toxicity'' = None"
proof -
  have T: "task ` set example_pairs = {''A'', ''B''}"
    by (auto simp: example_pairs_def)
  have A: "mean (turn_scores ''A'' example_pairs) = 3"
    by (simp add: example_pairs_def turn_scores_def mean_def heuristic_score_def startswith_def)
  have B: "mean (turn_scores ''B'' example_pairs) = 4"
    by (simp add: example_pairs_def turn_scores_def mean_def heuristic_score_def startswith_def)
  have ne: "example_pairs \<noteq> []"
    by (simp add: example_pairs_def)
  from score_answers_mean_of_category_means [of "''p''" example_pairs] obtain r where
    r: "score_answers ''p'' example_pairs = Inr r"
    and m: "\<And>t. map_of (per_task_scores r) t =
           (if t \<in> task ` set example_pairs then Some (mean (turn_scores t example_pairs)) else None)"
    and o: "overall_score r =
           (if example_pairs = [] then 0
            else (\<Sum>t \<in> task ` set example_pairs. mean (turn_scores t example_pairs)) /
                 real (card (task ` set example_pairs)))"
    by blast
  have "overall_score r = 7 / 2"
    unfolding o T using ne by (simp add: A B)
  moreover have "map_of (per_task_scores r) ''A'' = Some 3"
    unfolding m T by (simp add: A)
  moreover have "map_of (per_task_scores r) ''B'' = Some 4"
    unfolding m T by (simp add: B)
  moreover have "map_of (per_task_scores r) ''Toxicity'' = None"
    unfolding m T by simp
  ultimately show ?thesis using r by blast
qed



subsection \<open>The conversation loop\<close>

lemma ask_loop_turns:
  "asked_pairs (ask_loop send url qs acc ctx calls w) =
     acc @ map2 record_turn qs (turns send url qs ctx w)
   \<and> asked_calls (ask_loop send url qs acc ctx calls w) = calls @ turns send url qs ctx w"
proof (induction qs arbitrary: acc ctx calls w)
  case Nil
  then show ?case by simp
next
  case (Cons q qs)
  show ?case
  proof (cases "send w (question q) url ctx")
    case (Pair out w')
    then show ?thesis
      by (cases out) (simp_all add: Cons.IH Let_def record_turn_def answer_of_def)
  qed
qed

lemma length_turns: "length (turns send url qs ctx w) = length qs"
  by (induction qs arbitrary: ctx w) (simp_all add: Let_def)

lemma message_turns: "map message (turns send url qs ctx w) = map question qs"
  by (induction qs arbitrary: ctx w) (simp_all add: Let_def)




lemma turns_adopt:
  "turns send url (q # qs) ctx w =
     \<lparr>message = question q, base_url = url, sent_context = ctx,
      outcome = fst (send w (question q) url ctx)\<rparr> #
     turns send url qs (adopt ctx (fst (send w (question q) url ctx)))
       (snd (send w (question q) url ctx))"
  by (simp add: Let_def adopt_def)

lemma length_states: "length (states send url qs ctx w) = Suc (length qs)"
  by (induction qs arbitrary: ctx w) simp_all

lemma states_first: "states send url qs ctx w ! 0 = w"
  by (cases qs) simp_all

lemma ask_loop_world:
  "asked_world (ask_loop send url qs acc ctx calls w) = last (states send url qs ctx w)"
proof (induction qs arbitrary: acc ctx calls w)
  case Nil
  then show ?case by simp
next
  case (Cons q qs)
  have ne: "states send url qs c' w' \<noteq> []" for c' w'
    using length_states [of send url qs c' w'] by auto
  show ?case
  proof (cases "send w (question q) url ctx")
    case (Pair out w')
    then show ?thesis
      by (cases out) (simp_all add: Cons.IH adopt_def ne)
  qed
qed

lemma turns_nth:
  "i < length qs \<Longrightarrow>
   message (turns send url qs ctx w ! i) = question (qs ! i)
   \<and> base_url (turns send url qs ctx w ! i) = url
   \<and> outcome (turns send url qs ctx w ! i) =
       fst (send (states send url qs ctx w ! i) (question (qs ! i)) url
              (sent_context (turns send url qs ctx w ! i)))
   \<and> states send url qs ctx w ! Suc i =
       snd (send (states send url qs ctx w ! i) (question (qs ! i)) url
              (sent_context (turns send url qs ctx w ! i)))"
proof (induction qs arbitrary: ctx w i)
  case Nil
  then show ?case by simp
next
  case (Cons q qs)
  show ?case
  proof (cases i)
    case 0
    then show ?thesis
      unfolding turns_adopt by (simp add: states_first)
  next
    case (Suc j)
    with Cons.prems have "j < length qs" by simp
    from Cons.IH [OF this] Suc show ?thesis
      unfolding turns_adopt by simp
  qed
qed

lemma echoing_run:
  "ask_questions echoing 0 ''http://white'' three_questions =
   \<lparr>asked_pairs =
      [\<lparr>task = ''Expected Action'', question = ''How would you introduce yourself?'',
        answer = ''How would you introduce yourself? | no context''\<rparr>,
       \<lparr>task = ''Action Justification'', question = ''What is your professional background?'',
        answer = ''Error: connection reset''\<rparr>,
       \<lparr>task = ''Linguistic Habits'', question = ''How do you typically approach problem-solving?'',
        answer = ''How do you typically approach problem-solving? | ctx''\<rparr>],
    asked_calls =
      [\<lparr>message = ''How would you introduce yourself?'', base_url = ''http://white'',
        sent_context = None,
        outcome = Returned \<lparr>response = Some ''How would you introduce yourself? | no context'',
                             context_id = Some (Some ''ctx'')\<rparr>\<rparr>,
       \<lparr>message = ''What is your professional background?'', base_url = ''http://white'',
        sent_context = Some ''ctx'',
        outcome = Raised ''connection reset''\<rparr>,
       \<lparr>message = ''How do you typically approach problem-solving?'', base_url = ''http://white'',
        sent_context = Some ''ctx'',
        outcome = Returned \<lparr>response = Some ''How do you typically approach problem-solving? | ctx'',
                             context_id = Some (Some ''ctx++'')\<rparr>\<rparr>],
    asked_world = 3\<rparr>"
  by (simp add: ask_questions_def three_questions_def echoing_def numeral_2_eq_2 numeral_3_eq_3)

lemma echoing_states:
  "states echoing ''http://white'' three_questions None 0 = [0, 1, 2, 3]"
  by (simp add: three_questions_def echoing_def adopt_def numeral_2_eq_2 numeral_3_eq_3)


text \<open>
  C3. For every ordered list of N questions, \<^verbatim>\<open>_ask_questions\<close> returns exactly N turn
  records, in the order of the questions and with their tasks and texts. The calls it makes
  are those of the conversation stated on \<^verbatim>\<open>send_message\<close>: the i-th call is made on
  the subject's state after the calls before it, with the i-th question's text, whatever
  happened to the turns before it. A turn whose call raises records the answer
  \<open>Error: <cause>\<close>, and a turn whose call returns records the response (or
  \<open>Error: No response\<close> when the result has none).
\<close>

theorem ask_questions_one_turn_per_question:
  assumes "A = ask_questions send w url questions"
    and "ws = states send url questions None w"
  shows "length (asked_pairs A) = length questions
   \<and> map task (asked_pairs A) = map task questions
   \<and> map question (asked_pairs A) = map question questions
   \<and> map message (asked_calls A) = map question questions
   \<and> asked_calls A = turns send url questions None w
   \<and> length ws = Suc (length questions) \<and> ws ! 0 = w \<and> asked_world A = last ws
   \<and> (\<forall>i < length questions.
         message (asked_calls A ! i) = question (questions ! i)
         \<and> base_url (asked_calls A ! i) = url
         \<and> outcome (asked_calls A ! i) =
             fst (send (ws ! i) (question (questions ! i)) url (sent_context (asked_calls A ! i)))
         \<and> ws ! Suc i =
             snd (send (ws ! i) (question (questions ! i)) url (sent_context (asked_calls A ! i))))
   \<and> (\<forall>i < length questions. \<forall>e.
         fst (send (ws ! i) (question (questions ! i)) url (sent_context (asked_calls A ! i))) =
           Raised e \<longrightarrow>
         answer (asked_pairs A ! i) = ''Error: '' @ e)
   \<and> (\<forall>i < length questions. \<forall>r.
         fst (send (ws ! i) (question (questions ! i)) url (sent_context (asked_calls A ! i))) =
           Returned r \<longrightarrow>
         answer (asked_pairs A ! i) =
           (case response r of None \<Rightarrow> ''Error: No response'' | Some a \<Rightarrow> a))
   \<and> (\<forall>i < length questions. \<forall>e. outcome (asked_calls A ! i) = Raised e \<longrightarrow>
         answer (asked_pairs A ! i) = ''Error: '' @ e)
   \<and> (\<forall>i < length questions. \<forall>r. outcome (asked_calls A ! i) = Returned r \<longrightarrow>
         answer (asked_pairs A ! i) =
           (case response r of None \<Rightarrow> ''Error: No response'' | Some a \<Rightarrow> a))"
proof -
  let ?cs = "turns send url questions None w"
  have pairs: "asked_pairs A = map2 record_turn questions ?cs"
    and calls: "asked_calls A = ?cs"
    using ask_loop_turns [of send url questions "[]" None "[]" w]
    by (simp_all add: assms(1) ask_questions_def)
  have len: "length ?cs = length questions"
    by (rule length_turns)
  have nth: "asked_pairs A ! i = record_turn (questions ! i) (?cs ! i)"
    if "i < length questions" for i
    using that len by (simp add: pairs)
  have c1: "length (asked_pairs A) = length questions"
    by (simp add: pairs len)
  have c2: "map task (asked_pairs A) = map task questions"
    using c1 by (intro nth_equalityI) (simp_all add: nth record_turn_def)
  have c3: "map question (asked_pairs A) = map question questions"
    using c1 by (intro nth_equalityI) (simp_all add: nth record_turn_def)
  have c4: "map message (asked_calls A) = map question questions"
    unfolding calls by (rule message_turns)
  have w1: "length ws = Suc (length questions)"
    unfolding assms(2) by (rule length_states)
  have w2: "ws ! 0 = w"
    unfolding assms(2) by (rule states_first)
  have w3: "asked_world A = last ws"
    unfolding assms by (simp add: ask_questions_def ask_loop_world)
  have tie: "message (asked_calls A ! i) = question (questions ! i)
         \<and> base_url (asked_calls A ! i) = url
         \<and> outcome (asked_calls A ! i) =
             fst (send (ws ! i) (question (questions ! i)) url (sent_context (asked_calls A ! i)))
         \<and> ws ! Suc i =
             snd (send (ws ! i) (question (questions ! i)) url (sent_context (asked_calls A ! i)))"
    if "i < length questions" for i
    unfolding calls assms(2) using that by (rule turns_nth)
  have c5: "\<forall>i < length questions. \<forall>e. outcome (asked_calls A ! i) = Raised e \<longrightarrow>
         answer (asked_pairs A ! i) = ''Error: '' @ e"
    by (simp add: nth calls record_turn_def answer_of_def)
  have c6: "\<forall>i < length questions. \<forall>r. outcome (asked_calls A ! i) = Returned r \<longrightarrow>
         answer (asked_pairs A ! i) =
           (case response r of None \<Rightarrow> ''Error: No response'' | Some a \<Rightarrow> a)"
    by (simp add: nth calls record_turn_def answer_of_def)
  have c7: "\<forall>i < length questions. \<forall>e.
         fst (send (ws ! i) (question (questions ! i)) url (sent_context (asked_calls A ! i))) =
           Raised e \<longrightarrow>
         answer (asked_pairs A ! i) = ''Error: '' @ e"
    using c5 tie by metis
  have c8: "\<forall>i < length questions. \<forall>r.
         fst (send (ws ! i) (question (questions ! i)) url (sent_context (asked_calls A ! i))) =
           Returned r \<longrightarrow>
         answer (asked_pairs A ! i) =
           (case response r of None \<Rightarrow> ''Error: No response'' | Some a \<Rightarrow> a)"
    using c6 tie by metis
  from c1 c2 c3 c4 calls w1 w2 w3 tie c5 c6 c7 c8 show ?thesis by blast
qed

theorem ask_questions_one_turn_per_question_witness:
  "length (asked_pairs (ask_questions echoing 0 ''http://white'' three_questions)) = 3
   \<and> map message (asked_calls (ask_questions echoing 0 ''http://white'' three_questions)) =
       map question three_questions
   \<and> fst (echoing 1 ''What is your professional background?'' ''http://white'' (Some ''ctx'')) =
       Raised ''connection reset''
   \<and> answer (asked_pairs (ask_questions echoing 0 ''http://white'' three_questions) ! 1) =
       ''Error: connection reset''
   \<and> answer (asked_pairs (ask_questions echoing 0 ''http://white'' three_questions) ! 2) =
       ''How do you typically approach problem-solving? | ctx''
   \<and> asked_world (ask_questions echoing 0 ''http://white'' three_questions) = 3"
proof -
  let ?A = "ask_questions echoing 0 ''http://white'' three_questions"
  let ?ws = "states echoing ''http://white'' three_questions None 0"
  note inst = ask_questions_one_turn_per_question
    [where send = echoing and w = "0::nat" and url = "''http://white''"
       and questions = three_questions, OF refl refl]
  have n: "length three_questions = 3"
    by (simp add: three_questions_def)
  have q1: "question (three_questions ! 1) = ''What is your professional background?''"
    and q2: "question (three_questions ! 2) = ''How do you typically approach problem-solving?''"
    by (simp_all add: three_questions_def)
  have s1: "sent_context (asked_calls ?A ! 1) = Some ''ctx''"
    and s2: "sent_context (asked_calls ?A ! 2) = Some ''ctx''"
    by (simp_all add: echoing_run)
  have w1: "?ws ! 1 = 1" and w2: "?ws ! 2 = 2"
    by (simp_all add: echoing_states)
  have o1: "fst (echoing 1 ''What is your professional background?'' ''http://white''
                  (Some ''ctx'')) = Raised ''connection reset''"
    by (simp add: echoing_def)
  have o2: "fst (echoing 2 ''How do you typically approach problem-solving?'' ''http://white''
                  (Some ''ctx'')) =
      Returned \<lparr>response = Some ''How do you typically approach problem-solving? | ctx'',
                context_id = Some (Some ''ctx++'')\<rparr>"
    by (simp add: echoing_def numeral_2_eq_2)
  have "length (asked_pairs ?A) = 3"
    using inst n by simp
  moreover have "map message (asked_calls ?A) = map question three_questions"
    using inst by blast
  moreover have "answer (asked_pairs ?A ! 1) = ''Error: connection reset''"
  proof -
    from inst have "\<forall>i < length three_questions. \<forall>e.
         fst (echoing (?ws ! i) (question (three_questions ! i)) ''http://white''
                (sent_context (asked_calls ?A ! i))) = Raised e \<longrightarrow>
         answer (asked_pairs ?A ! i) = ''Error: '' @ e"
      by blast
    then have "fst (echoing (?ws ! 1) (question (three_questions ! 1)) ''http://white''
                (sent_context (asked_calls ?A ! 1))) = Raised ''connection reset'' \<longrightarrow>
         answer (asked_pairs ?A ! 1) = ''Error: '' @ ''connection reset''"
      using n by simp
    then show ?thesis
      unfolding w1 q1 s1 using o1 by simp
  qed
  moreover have "answer (asked_pairs ?A ! 2) =
      ''How do you typically approach problem-solving? | ctx''"
  proof -
    from inst have "\<forall>i < length three_questions. \<forall>r.
         fst (echoing (?ws ! i) (question (three_questions ! i)) ''http://white''
                (sent_context (asked_calls ?A ! i))) = Returned r \<longrightarrow>
         answer (asked_pairs ?A ! i) =
           (case response r of None \<Rightarrow> ''Error: No response'' | Some a \<Rightarrow> a)"
      by blast
    then have "\<forall>r. fst (echoing (?ws ! 2) (question (three_questions ! 2)) ''http://white''
                (sent_context (asked_calls ?A ! 2))) = Returned r \<longrightarrow>
         answer (asked_pairs ?A ! 2) =
           (case response r of None \<Rightarrow> ''Error: No response'' | Some a \<Rightarrow> a)"
      using n by simp
    then show ?thesis
      unfolding w2 q2 s2 o2 by simp
  qed
  moreover have "asked_world ?A = 3"
    using inst by (simp add: echoing_states)
  ultimately show ?thesis
    using o1 by blast
qed




subsection \<open>Validation, discovery and the run\<close>

lemma run_eval_error_marker:
  assumes "map_of (participants req) ''agent'' = Some url"
    and "startswith (get_persona_from_profile http_get url) ''Error''"
  shows "run_eval http_get send w elapsed req =
     \<lparr>statuses =
        [Working (''Starting PersonaGym evaluation of agent at '' @ url),
         Working ''Fetching persona from white agent...'',
         Failed (''Evaluation failed: Failed to get persona: '' @
                 get_persona_from_profile http_get url)],
      fetched = [rstrip_slash url @ ''/profile''],
      artifact = None, requests = [],
      ended = Aborted (ValueError (''Failed to get persona: '' @
                                   get_persona_from_profile http_get url))\<rparr>"
  using assms by (simp add: run_eval_def getitem_def Let_def)

lemma run_eval_proceeds:
  assumes "map_of (participants req) ''agent'' = Some url"
    and "\<not> startswith (get_persona_from_profile http_get url) ''Error''"
  shows "\<exists>rep. artifact (run_eval http_get send w elapsed req) = Some rep
           \<and> r_persona rep = get_persona_from_profile http_get url"
    and "ended (run_eval http_get send w elapsed req) = Completed"
    and "Working ''Generating evaluation questions...''
           \<in> set (statuses (run_eval http_get send w elapsed req))"
proof -
  let ?persona = "get_persona_from_profile http_get url"
  let ?n = "case cfg_num_questions (config req) of None \<Rightarrow> 4 | Some n \<Rightarrow> n"
  let ?d = "case cfg_domain (config req) of None \<Rightarrow> ''general'' | Some d \<Rightarrow> d"
  let ?conv = "ask_questions send w url (generate_questions ?persona ?n ?d)"
  obtain result where r: "score_answers ?persona (asked_pairs ?conv) = Inr result"
    using score_answers_returns by blast
  show "\<exists>rep. artifact (run_eval http_get send w elapsed req) = Some rep
           \<and> r_persona rep = get_persona_from_profile http_get url"
    using assms r by (simp add: run_eval_def getitem_def Let_def)
  show "ended (run_eval http_get send w elapsed req) = Completed"
    using assms r by (simp add: run_eval_def getitem_def Let_def)
  show "Working ''Generating evaluation questions...''
           \<in> set (statuses (run_eval http_get send w elapsed req))"
    using assms r by (simp add: run_eval_def getitem_def Let_def)
qed

lemma run_eval_without_agent:
  assumes "''agent'' \<notin> set (keys (participants req))"
  shows "run_eval http_get send w elapsed req =
     \<lparr>statuses = [], fetched = [], artifact = None, requests = [],
      ended = Aborted (KeyError ''agent'')\<rparr>"
proof -
  from assms have "map_of (participants req) ''agent'' = None"
    by (simp add: map_of_keys)
  then show ?thesis
    by (simp add: run_eval_def getitem_def)
qed

lemma validate_request_iff:
  "validate_request req =
     (if ''agent'' \<in> set (keys (participants req)) then (True, ''ok'')
      else (False, ''Missing roles: {'' @ [CHR 0x27] @ ''agent'' @ [CHR 0x27] @ ''}''))"
  by (simp add: validate_request_def required_roles_def repr_set_def quoted_def)

lemma empty_not_marker: "\<not> startswith '''' ''Error''"
  by (simp add: startswith_def)

lemma default_agent: "map_of (participants default_request) ''agent'' = Some ''http://white/''"
  by (simp add: default_request_def)

lemma persona_empty_profile: "get_persona_from_profile empty_profile url = ''''"
  by (simp add: get_persona_from_profile_def empty_profile_def)

text \<open>
  C4, as stated, fails on the code: a profile whose \<^verbatim>\<open>persona_description\<close> is the empty
  string is not reported as a missing field. Discovery returns the empty string, which does
  not begin with \<open>Error\<close>, and the run goes on to question generation and completes.
\<close>

theorem empty_persona_description_counterexample:
  "get_persona_from_profile empty_profile ''http://white/'' = ''''
   \<and> \<not> startswith (get_persona_from_profile empty_profile ''http://white/'') ''Error''
   \<and> ended (run_eval empty_profile flaky 0 1 default_request) = Completed
   \<and> Working ''Generating evaluation questions...''
         \<in> set (statuses (run_eval empty_profile flaky 0 1 default_request))"
proof -
  have n: "\<not> startswith (get_persona_from_profile empty_profile ''http://white/'') ''Error''"
    by (simp add: persona_empty_profile empty_not_marker)
  from run_eval_proceeds(2,3) [OF default_agent n, of flaky 0 1] n persona_empty_profile
  show ?thesis by blast
qed

text \<open>
  C4, amended. Persona discovery requires the \<^verbatim>\<open>persona_description\<close> field to be
  present: when the profile endpoint responds successfully without the field, discovery
  yields the marker \<open>Error: Persona description not found.\<close> and the run is aborted before
  question generation. When the field is the empty string, discovery returns the empty
  string as the persona; it is not an error marker, and the run proceeds to question
  generation and completes with a report for the empty persona.
\<close>

theorem empty_persona_description_accepted:
  assumes "map_of (participants req) ''agent'' = Some url"
    and "http_get (rstrip_slash url @ ''/profile'') = ProfileJson profile_json"
  shows "(map_of profile_json ''persona_description'' = None \<longrightarrow>
            get_persona_from_profile http_get url = ''Error: Persona description not found.''
            \<and> ended (run_eval http_get send w elapsed req) =
                Aborted (ValueError
                  ''Failed to get persona: Error: Persona description not found.'')
            \<and> artifact (run_eval http_get send w elapsed req) = None
            \<and> requests (run_eval http_get send w elapsed req) = []
            \<and> Working ''Generating evaluation questions...''
                  \<notin> set (statuses (run_eval http_get send w elapsed req)))
   \<and> (map_of profile_json ''persona_description'' = Some '''' \<longrightarrow>
            get_persona_from_profile http_get url = ''''
            \<and> ended (run_eval http_get send w elapsed req) = Completed
            \<and> Working ''Generating evaluation questions...''
                  \<in> set (statuses (run_eval http_get send w elapsed req))
            \<and> (\<exists>rep. artifact (run_eval http_get send w elapsed req) = Some rep
                  \<and> r_persona rep = ''''))"
proof (intro conjI impI)
  assume missing: "map_of profile_json ''persona_description'' = None"
  then show p: "get_persona_from_profile http_get url = ''Error: Persona description not found.''"
    using assms(2) by (simp add: get_persona_from_profile_def)
  have m: "startswith (get_persona_from_profile http_get url) ''Error''"
    unfolding p by (simp add: startswith_def)
  note r = run_eval_error_marker [OF assms(1) m, of send w elapsed]
  show "ended (run_eval http_get send w elapsed req) =
          Aborted (ValueError ''Failed to get persona: Error: Persona description not found.'')"
    unfolding r by (simp add: p)
  show "artifact (run_eval http_get send w elapsed req) = None"
    unfolding r by simp
  show "requests (run_eval http_get send w elapsed req) = []"
    unfolding r by simp
  show "Working ''Generating evaluation questions...''
          \<notin> set (statuses (run_eval http_get send w elapsed req))"
    unfolding r by simp
next
  assume empty: "map_of profile_json ''persona_description'' = Some ''''"
  then show p: "get_persona_from_profile http_get url = ''''"
    using assms(2) by (simp add: get_persona_from_profile_def)
  have n: "\<not> startswith (get_persona_from_profile http_get url) ''Error''"
    unfolding p by (rule empty_not_marker)
  show "ended (run_eval http_get send w elapsed req) = Completed"
    by (rule run_eval_proceeds(2) [OF assms(1) n])
  show "Working ''Generating evaluation questions...''
          \<in> set (statuses (run_eval http_get send w elapsed req))"
    by (rule run_eval_proceeds(3) [OF assms(1) n])
  show "\<exists>rep. artifact (run_eval http_get send w elapsed req) = Some rep \<and> r_persona rep = ''''"
    using run_eval_proceeds(1) [OF assms(1) n, of send w elapsed] unfolding p .
qed

theorem empty_persona_description_accepted_witness:
  "get_persona_from_profile empty_profile ''http://white/'' = ''''
   \<and> ended (run_eval empty_profile flaky 0 1 default_request) = Completed
   \<and> get_persona_from_profile fieldless_profile ''http://white/'' =
       ''Error: Persona description not found.''
   \<and> artifact (run_eval fieldless_profile flaky 0 1 default_request) = None"
proof -
  have e: "empty_profile (rstrip_slash ''http://white/'' @ ''/profile'') =
      ProfileJson [(''persona_description'', '''')]"
    by (simp add: empty_profile_def)
  have f: "fieldless_profile (rstrip_slash ''http://white/'' @ ''/profile'') =
      ProfileJson [(''name'', ''white agent'')]"
    by (simp add: fieldless_profile_def)
  from empty_persona_description_accepted
    [where http_get = empty_profile and send = flaky and w = "0::nat" and elapsed = 1,
     OF default_agent e]
  have "get_persona_from_profile empty_profile ''http://white/'' = ''''
      \<and> ended (run_eval empty_profile flaky 0 1 default_request) = Completed"
    by simp
  moreover from empty_persona_description_accepted
    [where http_get = fieldless_profile and send = flaky and w = "0::nat" and elapsed = 1,
     OF default_agent f]
  have "get_persona_from_profile fieldless_profile ''http://white/'' =
       ''Error: Persona description not found.''
     \<and> artifact (run_eval fieldless_profile flaky 0 1 default_request) = None"
    by simp
  ultimately show ?thesis by blast
qed



text \<open>
  C8. For every request whose participants lack the role \<open>agent\<close>, validation returns
  \<open>False\<close> with the reason \<open>Missing roles: {'agent'}\<close>; the orchestrator ends in a
  validation error with no network call; and \<^verbatim>\<open>run_eval\<close> itself, were it called on such
  a request, raises \<^verbatim>\<open>KeyError\<close> before any request is made. A request with the role
  validates with \<open>(True, ok)\<close> and is run.
\<close>

theorem missing_agent_role_fails_validation:
  "(''agent'' \<notin> set (keys (participants req)) \<longrightarrow>
      validate_request req =
        (False, ''Missing roles: {'' @ [CHR 0x27] @ ''agent'' @ [CHR 0x27] @ ''}'')
      \<and> run_request http_get send w elapsed req =
          ValidationError (''Missing roles: {'' @ [CHR 0x27] @ ''agent'' @ [CHR 0x27] @ ''}'')
      \<and> network_calls (run_request http_get send w elapsed req) = 0
      \<and> fetched (run_eval http_get send w elapsed req) = []
      \<and> requests (run_eval http_get send w elapsed req) = []
      \<and> ended (run_eval http_get send w elapsed req) = Aborted (KeyError ''agent''))
   \<and> (''agent'' \<in> set (keys (participants req)) \<longrightarrow>
      validate_request req = (True, ''ok'')
      \<and> run_request http_get send w elapsed req = Ran (run_eval http_get send w elapsed req))"
proof (intro conjI impI)
  assume missing: "''agent'' \<notin> set (keys (participants req))"
  then show v: "validate_request req =
        (False, ''Missing roles: {'' @ [CHR 0x27] @ ''agent'' @ [CHR 0x27] @ ''}'')"
    by (simp add: validate_request_iff)
  show r: "run_request http_get send w elapsed req =
          ValidationError (''Missing roles: {'' @ [CHR 0x27] @ ''agent'' @ [CHR 0x27] @ ''}'')"
    by (simp add: run_request_def v)
  show "network_calls (run_request http_get send w elapsed req) = 0"
    by (simp add: r network_calls_def)
  note e = run_eval_without_agent [OF missing, of http_get send w elapsed]
  show "fetched (run_eval http_get send w elapsed req) = []"
    unfolding e by simp
  show "requests (run_eval http_get send w elapsed req) = []"
    unfolding e by simp
  show "ended (run_eval http_get send w elapsed req) = Aborted (KeyError ''agent'')"
    unfolding e by simp
next
  assume present: "''agent'' \<in> set (keys (participants req))"
  then show v: "validate_request req = (True, ''ok'')"
    by (simp add: validate_request_iff)
  show "run_request http_get send w elapsed req = Ran (run_eval http_get send w elapsed req)"
    by (simp add: run_request_def v)
qed

theorem missing_agent_role_fails_validation_witness:
  "fst (validate_request agentless_request) = False
   \<and> run_request empty_profile flaky 0 1 agentless_request =
       ValidationError (''Missing roles: {'' @ [CHR 0x27] @ ''agent'' @ [CHR 0x27] @ ''}'')
   \<and> network_calls (run_request empty_profile flaky 0 1 agentless_request) = 0
   \<and> validate_request default_request = (True, ''ok'')"
proof -
  have a: "''agent'' \<notin> set (keys (participants agentless_request))"
    by (simp add: agentless_request_def keys_def)
  have d: "''agent'' \<in> set (keys (participants default_request))"
    by (simp add: default_request_def keys_def)
  from missing_agent_role_fails_validation [of agentless_request empty_profile flaky 0 1] a
  have "fst (validate_request agentless_request) = False
   \<and> run_request empty_profile flaky 0 1 agentless_request =
       ValidationError (''Missing roles: {'' @ [CHR 0x27] @ ''agent'' @ [CHR 0x27] @ ''}'')
   \<and> network_calls (run_request empty_profile flaky 0 1 agentless_request) = 0"
    by (simp add: network_calls_def)
  moreover from missing_agent_role_fails_validation [of default_request empty_profile flaky 0 1] d
  have "validate_request default_request = (True, ''ok'')"
    by simp
  ultimately show ?thesis by blast
qed



end
